theory Spec2Isabelle
  imports Main "HOL-Library.Word" "HOL-Library.Multiset"
begin

unbundle bit_operations_syntax

section \<open>Machine integers, errors and panics\<close>

text \<open>
  All header fields and timestamps of whisper.go are \<open>uint32\<close>: they are 32-bit words
  here, so \<open>+\<close>, \<open>-\<close> and \<open>*\<close> wrap around as in Go. A \<open>float32\<close> or \<open>float64\<close> is
  carried as its IEEE-754 bit pattern, which is what \<open>encoding/binary\<close> stores; the
  few floating-point operations the code performs are collected in \<open>float_ops\<close> and
  every function that computes with floats takes them as its first argument, so no
  theorem below depends on a particular rounding behaviour.
\<close>

type_synonym u32 = "32 word"
type_synonym byte = "8 word"
type_synonym float32 = "32 word"
type_synonym float64 = "64 word"

text \<open>
  A Go \<open>error\<close> value. \<open>ErrorString\<close> is \<open>errors.New\<close> with the message of the source;
  \<open>ErrorCapacity\<close> is the formatted message of \<open>writePoints\<close> and carries the two numbers
  it prints; \<open>EOF\<close> and \<open>ErrUnexpectedEOF\<close> are what \<open>binary.Read\<close> returns on a short file.
\<close>

datatype go_error = EOF | ErrUnexpectedEOF | ErrorString string | ErrorCapacity u32 u32

text \<open>A run-time panic ends the call; it is the left summand of every result.\<close>

datatype panic = DivideByZero | IndexOutOfRange | SliceBoundsOutOfRange

record float_ops =
  f64_add :: "float64 \<Rightarrow> float64 \<Rightarrow> float64"
  f64_div_len :: "float64 \<Rightarrow> nat \<Rightarrow> float64"
  f64_less :: "float64 \<Rightarrow> float64 \<Rightarrow> bool"
  f32_ratio_less :: "nat \<Rightarrow> nat \<Rightarrow> float32 \<Rightarrow> bool"

text \<open>
  \<open>f64_add a b\<close> is \<open>a + b\<close>, \<open>f64_div_len a n\<close> is \<open>a / float64(n)\<close>, \<open>f64_less a b\<close> is
  \<open>a < b\<close>, and \<open>f32_ratio_less k n x\<close> is \<open>float32(k)/float32(n) < x\<close>.
\<close>

section \<open>Data model\<close>

record Metadata =
  AggregationMethod :: u32
  MaxRetention :: u32
  XFilesFactor :: float32
  ArchiveCount :: u32

record ArchiveInfo =
  Offset :: u32
  SecondsPerPoint :: u32
  Points :: u32

record Point =
  Timestamp :: u32
  Value :: float64

record Header =
  Metadata :: Metadata
  Archives :: "ArchiveInfo list"

text \<open>
  \<open>init\<close> sets \<open>pointSize\<close> to \<open>binary.Size(Point{})\<close>, a \<open>uint32\<close> and a \<open>float64\<close>, and
  \<open>metadataSize\<close> to \<open>binary.Size(Metadata{})\<close>, three \<open>uint32\<close> and a \<open>float32\<close>.
\<close>

definition pointSize :: u32 where
  "pointSize = 12"

definition metadataSize :: u32 where
  "metadataSize = 16"

definition Retention :: "ArchiveInfo \<Rightarrow> u32" where
  "Retention a = SecondsPerPoint a * Points a"

definition size_a :: "ArchiveInfo \<Rightarrow> u32" where
  "size_a a = Points a * pointSize"

definition end_a :: "ArchiveInfo \<Rightarrow> u32" where
  "end_a a = Offset a + size_a a"

definition AGGREGATION_AVERAGE :: u32 where "AGGREGATION_AVERAGE = 1"
definition AGGREGATION_SUM :: u32 where "AGGREGATION_SUM = 2"
definition AGGREGATION_LAST :: u32 where "AGGREGATION_LAST = 3"
definition AGGREGATION_MAX :: u32 where "AGGREGATION_MAX = 4"
definition AGGREGATION_MIN :: u32 where "AGGREGATION_MIN = 5"

section \<open>The file and the big-endian codec\<close>

text \<open>
  \<open>*os.File\<close> on a regular file: its bytes and the current position. \<open>Seek\<close> is always
  from the start (whence 0) to a non-negative offset and cannot fail. \<open>Write\<close> puts the
  bytes at the position, filling a gap beyond the end with zeros, and writes nothing for
  an empty slice. \<open>Read\<close> is \<open>io.ReadFull\<close> as \<open>binary.Read\<close> uses it: all \<open>n\<close> bytes or an
  error.
\<close>

record os_file =
  content :: "byte list"
  pos :: nat

definition Seek :: "os_file \<Rightarrow> nat \<Rightarrow> os_file" where
  "Seek f off = f\<lparr>pos := off\<rparr>"

definition Write :: "os_file \<Rightarrow> byte list \<Rightarrow> os_file" where
  "Write f bs =
     (if bs = [] then f
      else f\<lparr>content := take (pos f) (content f @ replicate (pos f - length (content f)) 0)
                           @ bs @ drop (pos f + length bs) (content f),
             pos := pos f + length bs\<rparr>)"

definition Read :: "os_file \<Rightarrow> nat \<Rightarrow> (go_error + byte list) \<times> os_file" where
  "Read f n =
     (if n = 0 then (Inr [], f)
      else if length (content f) \<le> pos f then (Inl EOF, f)
      else if length (content f) < pos f + n
        then (Inl ErrUnexpectedEOF, f\<lparr>pos := length (content f)\<rparr>)
      else (Inr (take n (drop (pos f) (content f))), f\<lparr>pos := pos f + n\<rparr>))"

definition be32 :: "u32 \<Rightarrow> byte list" where
  "be32 x = [ucast (drop_bit 24 x), ucast (drop_bit 16 x), ucast (drop_bit 8 x), ucast x]"

definition be64 :: "float64 \<Rightarrow> byte list" where
  "be64 x = [ucast (drop_bit 56 x), ucast (drop_bit 48 x), ucast (drop_bit 40 x),
             ucast (drop_bit 32 x), ucast (drop_bit 24 x), ucast (drop_bit 16 x),
             ucast (drop_bit 8 x), ucast x]"

definition de32 :: "byte list \<Rightarrow> u32" where
  "de32 bs = foldl (\<lambda>acc b. push_bit 8 acc OR ucast b) 0 bs"

definition de64 :: "byte list \<Rightarrow> float64" where
  "de64 bs = foldl (\<lambda>acc b. push_bit 8 acc OR ucast b) 0 bs"

definition put_Metadata :: "Metadata \<Rightarrow> byte list" where
  "put_Metadata m =
     be32 (AggregationMethod m) @ be32 (MaxRetention m) @ be32 (XFilesFactor m)
     @ be32 (ArchiveCount m)"

definition put_ArchiveInfo :: "ArchiveInfo \<Rightarrow> byte list" where
  "put_ArchiveInfo a = be32 (Offset a) @ be32 (SecondsPerPoint a) @ be32 (Points a)"

definition put_Point :: "Point \<Rightarrow> byte list" where
  "put_Point p = be32 (Timestamp p) @ be64 (Value p)"

definition get_Point :: "byte list \<Rightarrow> Point" where
  "get_Point bs = \<lparr>Timestamp = de32 (take 4 bs), Value = de64 (take 8 (drop 4 bs))\<rparr>"

definition put_Points :: "Point list \<Rightarrow> byte list" where
  "put_Points ps = concat (map put_Point ps)"

definition get_Points :: "nat \<Rightarrow> byte list \<Rightarrow> Point list" where
  "get_Points n bs = map (\<lambda>i. get_Point (take 12 (drop (12 * i) bs))) [0..<n]"

definition zero_Point :: Point where
  "zero_Point = \<lparr>Timestamp = 0, Value = 0\<rparr>"

definition zero_ArchiveInfo :: ArchiveInfo where
  "zero_ArchiveInfo = \<lparr>Offset = 0, SecondsPerPoint = 0, Points = 0\<rparr>"

text \<open>
  The handle of an open database: the header read at \<open>Open\<close>, the file, and a record
  of the writes made through the handle so far, each with the offset it went to and
  its bytes. The record is kept for the statements about what is written; no function
  reads it.
\<close>

record Whisper =
  Header :: Header
  wfile :: os_file
  writes :: "(nat \<times> byte list) list"

section \<open>ValidateArchiveList\<close>

text \<open>
  The loop over adjacent pairs of the sorted list. \<open>nextArchive.SecondsPerPoint %
  archive.SecondsPerPoint\<close> panics in Go when the divisor is zero; rule 2 has passed by
  then, so this happens exactly when \<open>archive.SecondsPerPoint\<close> is 0.
\<close>

fun validate_loop :: "ArchiveInfo list \<Rightarrow> panic + go_error option" where
  "validate_loop [] = Inr None"
| "validate_loop [archive] = Inr None"
| "validate_loop (archive # nextArchive # rest) =
     (if \<not> (SecondsPerPoint archive < SecondsPerPoint nextArchive)
        then Inr (Some (ErrorString ''No archive may be a duplicate of another''))
      else if SecondsPerPoint archive = 0 then Inl DivideByZero
      else if SecondsPerPoint nextArchive mod SecondsPerPoint archive \<noteq> 0
        then Inr (Some (ErrorString
          ''Higher precision archives must evenly divide in to lower precision''))
      else if \<not> (Retention nextArchive > Retention archive)
        then Inr (Some (ErrorString
          ''Lower precision archives must cover a larger time interval than higher precision''))
      else if \<not> (Points archive \<ge> SecondsPerPoint nextArchive div SecondsPerPoint archive)
        then Inr (Some (ErrorString ''Each archive must be able to consolidate the next''))
      else validate_loop (nextArchive # rest))"

text \<open>
  \<open>sort.Sort(bySecondsPerPoint(archives))\<close> sorts the caller's slice in place, so the
  sorted list is part of the result. \<open>sort.Sort\<close> is an insertion sort on short slices,
  which is what \<open>sort_key\<close> is; on long slices Go does not promise to keep the order of
  archives of equal resolution.
\<close>

definition ValidateArchiveList :: "ArchiveInfo list \<Rightarrow> panic + (go_error option \<times> ArchiveInfo list)" where
  "ValidateArchiveList archives =
     (let sorted = sort_key SecondsPerPoint archives in
      if length sorted = 0
        then Inr (Some (ErrorString ''archive list cannot have 0 length''), sorted)
      else (case validate_loop sorted of
              Inl p \<Rightarrow> Inl p
            | Inr e \<Rightarrow> Inr (e, sorted)))"

section \<open>Create\<close>

text \<open>
  \<open>Create\<close> on a path that does not exist yet: the file starts empty at position 0. The
  package variable \<open>archiveSize\<close> is set by \<open>init\<close> to \<open>binary.Size(Archive{})\<close>, the size
  of an empty slice value; it is the first argument here.
\<close>

fun Create_oldest :: "u32 \<Rightarrow> ArchiveInfo list \<Rightarrow> u32" where
  "Create_oldest oldest [] = oldest"
| "Create_oldest oldest (archive # rest) =
     (let age = SecondsPerPoint archive * Points archive in
      Create_oldest (if age > oldest then age else oldest) rest)"

fun Create_descriptors :: "os_file \<Rightarrow> u32 \<Rightarrow> ArchiveInfo list \<Rightarrow> os_file \<times> u32" where
  "Create_descriptors f archiveOffsetPointer [] = (f, archiveOffsetPointer)"
| "Create_descriptors f archiveOffsetPointer (archive # rest) =
     Create_descriptors
       (Write f (put_ArchiveInfo (archive\<lparr>Offset := archiveOffsetPointer\<rparr>)))
       (archiveOffsetPointer + Points archive * pointSize) rest"

function Create_fill :: "os_file \<Rightarrow> u32 \<Rightarrow> os_file" where
  "Create_fill f remaining =
     (if remaining > 16384
        then Create_fill (Write f (replicate 16384 0)) (remaining - 16384)
      else Write f (replicate (unat remaining) 0))"
  by pat_completeness auto
termination
  by (relation "measure (\<lambda>(f, remaining). unat remaining)")
     (auto simp: unat_sub word_less_nat_alt word_le_nat_alt)

declare Create_fill.simps [simp del]

definition Create :: "u32 \<Rightarrow> ArchiveInfo list \<Rightarrow> float32 \<Rightarrow> u32 \<Rightarrow> bool \<Rightarrow> go_error option \<times> os_file" where
  "Create archiveSize archives xFilesFactor aggregationMethod sparse =
     (let file0 = \<lparr>content = [], pos = 0\<rparr>;
          oldest = Create_oldest 0 archives;
          metadata = \<lparr>AggregationMethod = aggregationMethod, MaxRetention = oldest,
                      XFilesFactor = xFilesFactor,
                      ArchiveCount = of_nat (length archives)\<rparr>;
          file1 = Write file0 (put_Metadata metadata);
          headerSize = metadataSize + archiveSize * of_nat (length archives);
          (file2, archiveOffsetPointer) = Create_descriptors file1 headerSize archives
      in if sparse
           then (None, Write (Seek file2 (unat (archiveOffsetPointer - headerSize - 1))) [0])
         else (None, Create_fill file2 (archiveOffsetPointer - headerSize)))"

section \<open>Reading points\<close>

text \<open>
  \<open>readPoints(offset, points)\<close> fills a slice of \<open>n\<close> points that \<open>make\<close> has zeroed;
  when \<open>binary.Read\<close> fails the slice stays zeroed.
\<close>

definition readPoints :: "Whisper \<Rightarrow> u32 \<Rightarrow> nat \<Rightarrow> Point list \<times> go_error option \<times> Whisper" where
  "readPoints w offset n =
     (case Read (Seek (wfile w) (unat offset)) (unat pointSize * n) of
        (Inl e, f) \<Rightarrow> (replicate n zero_Point, Some e, w\<lparr>wfile := f\<rparr>)
      | (Inr bs, f) \<Rightarrow> (get_Points n bs, None, w\<lparr>wfile := f\<rparr>))"

definition readPoint :: "Whisper \<Rightarrow> u32 \<Rightarrow> Point \<times> go_error option \<times> Whisper" where
  "readPoint w offset =
     (case readPoints w offset 1 of (points, err, w') \<Rightarrow> (points ! 0, err, w'))"

definition readPointsBetweenOffsets ::
  "Whisper \<Rightarrow> ArchiveInfo \<Rightarrow> u32 \<Rightarrow> u32 \<Rightarrow> panic + (Point list \<times> go_error option \<times> Whisper)" where
  "readPointsBetweenOffsets w archive startOffset endOffset =
     (let archiveStart = Offset archive;
          archiveEnd = end_a archive
      in if startOffset < endOffset
           then Inr (readPoints w startOffset (unat ((endOffset - startOffset) div pointSize)))
         else
           (let numEndPoints = (archiveEnd - startOffset) div pointSize;
                numBeginPoints = (endOffset - archiveStart) div pointSize;
                total = numBeginPoints + numEndPoints
            in if total < numEndPoints then Inl SliceBoundsOutOfRange
               else (case readPoints w startOffset (unat numEndPoints) of
                       (endPoints, err, w1) \<Rightarrow>
                         if err \<noteq> None
                           then Inr (endPoints @ replicate (unat total - unat numEndPoints) zero_Point,
                                     err, w1)
                         else (case readPoints w1 archiveStart (unat total - unat numEndPoints) of
                                 (beginPoints, err2, w2) \<Rightarrow>
                                   Inr (endPoints @ beginPoints, err2, w2)))))"

section \<open>pointOffset\<close>

text \<open>
  The base point is read with \<open>w.readPoint(0)\<close>: from byte 0 of the file, whatever the
  archive. The division and the remainder panic on a zero divisor.
\<close>

definition pointOffset :: "Whisper \<Rightarrow> ArchiveInfo \<Rightarrow> u32 \<Rightarrow> panic + (u32 \<times> go_error option \<times> Whisper)" where
  "pointOffset w archive timestamp =
     (case readPoint w 0 of
        (basePoint, err, w') \<Rightarrow>
          if err \<noteq> None then Inr (0, err, w')
          else if Timestamp basePoint = 0 then Inr (Offset archive, None, w')
          else
            (let timeDistance = timestamp - Timestamp basePoint in
             if SecondsPerPoint archive = 0 then Inl DivideByZero
             else
               (let pointDistance = timeDistance div SecondsPerPoint archive;
                    byteDistance = pointDistance * pointSize
                in if size_a archive = 0 then Inl DivideByZero
                   else Inr (Offset archive + byteDistance mod size_a archive, None, w'))))"

section \<open>writePoints and writePoint\<close>

text \<open>
  \<open>points[0]\<close> panics on an empty slice. The write of the branch that does not wrap
  discards the error of \<open>binary.Write\<close>; the file of this model never fails a write.
\<close>

text \<open>What a write of \<open>bs\<close> at \<open>off\<close> adds to the record of writes.\<close>

definition logged :: "nat \<Rightarrow> byte list \<Rightarrow> (nat \<times> byte list) list" where
  "logged off bs = (if bs = [] then [] else [(off, bs)])"

definition writePoints :: "Whisper \<Rightarrow> ArchiveInfo \<Rightarrow> Point list \<Rightarrow> panic + (go_error option \<times> Whisper)" where
  "writePoints w archive points =
     (let nPoints = (of_nat (length points) :: u32) in
      if nPoints > Points archive then Inr (Some (ErrorCapacity (Points archive) nPoints), w)
      else if points = [] then Inl IndexOutOfRange
      else
        (case pointOffset w archive (Timestamp (points ! 0)) of
           Inl p \<Rightarrow> Inl p
         | Inr (offset, err, w1) \<Rightarrow>
             if err \<noteq> None then Inr (err, w1)
             else
               (let f1 = Seek (wfile w1) (unat offset);
                    maxPointsFromOffset = (end_a archive - offset) div pointSize
                in if nPoints > maxPointsFromOffset
                     then
                       (let f2 = Write f1 (put_Points (take (unat maxPointsFromOffset) points));
                            f3 = Seek f2 (unat (Offset archive));
                            f4 = Write f3 (put_Points (drop (unat maxPointsFromOffset) points))
                        in Inr (None, w1\<lparr>wfile := f4,
                                         writes := writes w1
                                           @ logged (unat offset)
                                               (put_Points (take (unat maxPointsFromOffset) points))
                                           @ logged (unat (Offset archive))
                                               (put_Points (drop (unat maxPointsFromOffset) points))\<rparr>))
                   else Inr (None, w1\<lparr>wfile := Write f1 (put_Points points),
                                        writes := writes w1
                                          @ logged (unat offset) (put_Points points)\<rparr>))))"

definition writePoint :: "Whisper \<Rightarrow> ArchiveInfo \<Rightarrow> Point \<Rightarrow> panic + (go_error option \<times> Whisper)" where
  "writePoint w archive point = writePoints w archive [point]"

section \<open>aggregate\<close>

text \<open>
  The result point starts as the zero value. \<open>points[len(points)-1]\<close> and \<open>points[0]\<close>
  panic on an empty slice; the average of an empty slice divides by \<open>float64(0)\<close>, which
  does not panic.
\<close>

definition aggregate :: "float_ops \<Rightarrow> u32 \<Rightarrow> Point list \<Rightarrow> panic + (Point \<times> go_error option)" where
  "aggregate fo aggregationMethod points =
     (if aggregationMethod = AGGREGATION_AVERAGE
        then Inr (\<lparr>Timestamp = 0,
                   Value = f64_div_len fo
                     (foldl (\<lambda>v p. f64_add fo v (Value p)) 0 points) (length points)\<rparr>, None)
      else if aggregationMethod = AGGREGATION_SUM
        then Inr (\<lparr>Timestamp = 0, Value = foldl (\<lambda>v p. f64_add fo v (Value p)) 0 points\<rparr>, None)
      else if aggregationMethod = AGGREGATION_LAST
        then (if points = [] then Inl IndexOutOfRange
              else Inr (\<lparr>Timestamp = 0, Value = Value (points ! (length points - 1))\<rparr>, None))
      else if aggregationMethod = AGGREGATION_MAX
        then (if points = [] then Inl IndexOutOfRange
              else Inr (\<lparr>Timestamp = 0,
                         Value = foldl (\<lambda>v p. if f64_less fo v (Value p) then Value p else v)
                                   (Value (points ! 0)) points\<rparr>, None))
      else if aggregationMethod = AGGREGATION_MIN
        then (if points = [] then Inl IndexOutOfRange
              else Inr (\<lparr>Timestamp = 0,
                         Value = foldl (\<lambda>v p. if f64_less fo (Value p) v then Value p else v)
                                   (Value (points ! 0)) points\<rparr>, None))
      else Inr (zero_Point, Some (ErrorString ''unknown aggregation function'')))"

section \<open>propagate\<close>

text \<open>
  The loop \<open>for i := 0; i < len(points); i += 2\<close>: it looks at \<open>points[0]\<close>, \<open>points[2]\<close>,
  \<open>points[4]\<close>, ... and adds \<open>higher.SecondsPerPoint\<close> to \<open>currentInterval\<close> once per
  iteration.
\<close>

fun neighbors :: "u32 \<Rightarrow> u32 \<Rightarrow> Point list \<Rightarrow> Point list" where
  "neighbors currentInterval step [] = []"
| "neighbors currentInterval step [p] = (if Timestamp p = currentInterval then [p] else [])"
| "neighbors currentInterval step (p # q # rest) =
     (if Timestamp p = currentInterval then [p] else [])
     @ neighbors (currentInterval + step) step rest"

text \<open>
  Lines 450 to 484 of \<open>propagate\<close>: the start of the lower interval, the points read
  from the higher archive and the neighbour points found among them. An error of
  \<open>pointOffset\<close> or of the read is returned with the results so far.
\<close>

definition propagate_neighbors ::
  "Whisper \<Rightarrow> u32 \<Rightarrow> ArchiveInfo \<Rightarrow> ArchiveInfo
     \<Rightarrow> panic + ((u32 \<times> Point list \<times> Point list) \<times> go_error option \<times> Whisper)" where
  "propagate_neighbors w timestamp higher lower =
     (if SecondsPerPoint lower = 0 then Inl DivideByZero
      else
        (let lowerIntervalStart = timestamp - timestamp mod SecondsPerPoint lower in
         case pointOffset w higher lowerIntervalStart of
           Inl p \<Rightarrow> Inl p
         | Inr (higherFirstOffset, err, w1) \<Rightarrow>
             if err \<noteq> None then Inr ((lowerIntervalStart, [], []), err, w1)
             else if SecondsPerPoint higher = 0 then Inl DivideByZero
             else
               (let numHigherPoints = SecondsPerPoint lower div SecondsPerPoint higher;
                    higherPointsSize = numHigherPoints * pointSize;
                    relativeFirstOffset = higherFirstOffset - Offset higher
                in if size_a higher = 0 then Inl DivideByZero
                   else
                     (let relativeLastOffset =
                            (relativeFirstOffset + higherPointsSize) mod size_a higher;
                          higherLastOffset = relativeLastOffset + Offset higher
                      in case readPointsBetweenOffsets w1 higher higherFirstOffset higherLastOffset of
                           Inl p \<Rightarrow> Inl p
                         | Inr (points, err2, w2) \<Rightarrow>
                             if err2 \<noteq> None then Inr ((lowerIntervalStart, points, []), err2, w2)
                             else Inr ((lowerIntervalStart, points,
                                        neighbors lowerIntervalStart (SecondsPerPoint higher) points),
                                       None, w2)))))"

text \<open>
  The result is \<open>(result, err)\<close> and the file. Every \<open>return\<close> on an error leaves
  \<open>result\<close> at its zero value \<open>false\<close>; the error of the final \<open>writePoint\<close> is assigned
  to \<open>err\<close> and then \<open>true, nil\<close> is returned.
\<close>

definition propagate ::
  "float_ops \<Rightarrow> Whisper \<Rightarrow> u32 \<Rightarrow> ArchiveInfo \<Rightarrow> ArchiveInfo
     \<Rightarrow> panic + (bool \<times> go_error option \<times> Whisper)" where
  "propagate fo w timestamp higher lower =
     (case propagate_neighbors w timestamp higher lower of
        Inl p \<Rightarrow> Inl p
      | Inr ((lowerIntervalStart, points, neighborPoints), err, w2) \<Rightarrow>
          if err \<noteq> None then Inr (False, err, w2)
          else
            (let knownPercent = f32_ratio_less fo (length neighborPoints) (length points)
                                  (XFilesFactor (Metadata (Header w)))
             in if length neighborPoints = 0 \<or> knownPercent then Inr (False, None, w2)
                else
                  (case aggregate fo (AggregationMethod (Metadata (Header w))) neighborPoints of
                     Inl p \<Rightarrow> Inl p
                   | Inr (aggregatePoint, err3) \<Rightarrow>
                       if err3 \<noteq> None then Inr (False, err3, w2)
                       else
                         (case writePoint w2 lower (aggregatePoint\<lparr>Timestamp := lowerIntervalStart\<rparr>) of
                            Inl p \<Rightarrow> Inl p
                          | Inr (err4, w3) \<Rightarrow> Inr (True, None, w3)))))"

section \<open>Update\<close>

text \<open>
  The loop \<open>for i, currentArchive := range w.Header.Archives\<close>. It has no \<open>break\<close>:
  every archive whose retention is not below \<open>diff\<close> sets \<open>lowerArchives\<close> again, to the
  archives after it. The third argument is \<open>w.Header.Archives[i:]\<close>.
\<close>

fun Update_select :: "u32 \<Rightarrow> ArchiveInfo list \<Rightarrow> ArchiveInfo list \<Rightarrow> ArchiveInfo list" where
  "Update_select diff lowerArchives [] = lowerArchives"
| "Update_select diff lowerArchives (currentArchive # rest) =
     (if Retention currentArchive < diff then Update_select diff lowerArchives rest
      else Update_select diff rest rest)"

text \<open>
  The loop \<open>for _, lowerArchive := range lowerArchives\<close>, with \<open>err\<close> the error of the
  first write. \<open>!result\<close> is tested before \<open>e\<close>.
\<close>

fun Update_propagate ::
  "float_ops \<Rightarrow> Whisper \<Rightarrow> u32 \<Rightarrow> ArchiveInfo \<Rightarrow> ArchiveInfo list \<Rightarrow> go_error option
     \<Rightarrow> panic + (go_error option \<times> Whisper)" where
  "Update_propagate fo w timestamp higherArchive [] err = Inr (err, w)"
| "Update_propagate fo w timestamp higherArchive (lowerArchive # rest) err =
     (case propagate fo w timestamp higherArchive lowerArchive of
        Inl p \<Rightarrow> Inl p
      | Inr (result, e, w') \<Rightarrow>
          if \<not> result then Inr (err, w')
          else if e \<noteq> None then Inr (e, w')
          else Update_propagate fo w' timestamp lowerArchive rest err)"

text \<open>
  \<open>now\<close> is \<open>uint32(time.Now().Unix())\<close>. The loop variable \<open>currentArchive\<close> of the
  selection loop is a new variable (\<open>:=\<close> in the \<open>range\<close> clause), so the
  \<open>currentArchive\<close> declared before the loop keeps its zero value, and the remainder
  \<open>point.Timestamp % currentArchive.SecondsPerPoint\<close> is taken with it. A rejected
  point returns \<open>err\<close>, which is still \<open>nil\<close>.
\<close>

definition Update :: "float_ops \<Rightarrow> Whisper \<Rightarrow> u32 \<Rightarrow> Point \<Rightarrow> panic + (go_error option \<times> Whisper)" where
  "Update fo w now point =
     (let diff = now - Timestamp point in
      if \<not> (diff < MaxRetention (Metadata (Header w)) \<and> diff \<ge> 0) then Inr (None, w)
      else
        (let lowerArchives = Update_select diff [] (Archives (Header w));
             currentArchive = zero_ArchiveInfo
         in if SecondsPerPoint currentArchive = 0 then Inl DivideByZero
            else
              (let point' = point\<lparr>Timestamp :=
                     Timestamp point - Timestamp point mod SecondsPerPoint currentArchive\<rparr>
               in case writePoint w currentArchive point' of
                    Inl p \<Rightarrow> Inl p
                  | Inr (err, w1) \<Rightarrow>
                      Update_propagate fo w1 (Timestamp point') currentArchive lowerArchives err)))"

section \<open>archiveUpdateMany\<close>







section \<open>UpdateMany\<close>

text \<open>
  \<open>sort.Sort(reverseArchive{currentPoints})\<close>: by descending timestamp. This is Go's
  insertion sort, which \<open>sort.Sort\<close> runs on short slices; on long slices Go does not
  promise the order of points of equal timestamp.
\<close>

fun insert_desc :: "Point \<Rightarrow> Point list \<Rightarrow> Point list" where
  "insert_desc p [] = [p]"
| "insert_desc p (q # qs) =
     (if Timestamp q < Timestamp p then p # q # qs else q # insert_desc p qs)"

definition sort_desc :: "Point list \<Rightarrow> Point list" where
  "sort_desc ps = foldl (\<lambda>acc p. insert_desc p acc) [] ps"







section \<open>Notions of the specification\<close>

text \<open>
  The slots of a lower interval as the specification counts them: the slot at position
  \<open>i\<close> is known when its stored timestamp is \<open>lowerIntervalStart + i * step\<close>.
\<close>

definition known_slots :: "u32 \<Rightarrow> u32 \<Rightarrow> Point list \<Rightarrow> Point list" where
  "known_slots lowerIntervalStart step points =
     map snd (filter (\<lambda>(i, p). Timestamp p = lowerIntervalStart + of_nat i * step)
                (enumerate 0 points))"

text \<open>
  An archive covers a point when its retention is not below the point's age; the finest
  covering archive is the first one in header order; the bucket of archive \<open>i\<close> holds the
  points of a batch whose finest covering archive is \<open>i\<close>, in batch order.
\<close>

definition covers :: "u32 \<Rightarrow> ArchiveInfo \<Rightarrow> Point \<Rightarrow> bool" where
  "covers now a p = (\<not> Retention a < now - Timestamp p)"

definition finest_covering :: "u32 \<Rightarrow> ArchiveInfo list \<Rightarrow> Point \<Rightarrow> nat option" where
  "finest_covering now archives p =
     List.find (\<lambda>i. covers now (archives ! i) p) [0..<length archives]"



text \<open>
  The bytes of all archives together, as \<open>Create\<close> adds them up in \<open>uint32\<close>.
\<close>

definition archives_bytes :: "ArchiveInfo list \<Rightarrow> u32" where
  "archives_bytes archives = sum_list (map (\<lambda>archive. Points archive * pointSize) archives)"

text \<open>
  Rules 2 to 5 for an adjacent pair of the sorted list, and the five rules for the list.
\<close>

definition pair_ok :: "ArchiveInfo \<Rightarrow> ArchiveInfo \<Rightarrow> bool" where
  "pair_ok finer coarser =
     (SecondsPerPoint finer < SecondsPerPoint coarser
      \<and> SecondsPerPoint coarser mod SecondsPerPoint finer = 0
      \<and> Retention coarser > Retention finer
      \<and> Points finer \<ge> SecondsPerPoint coarser div SecondsPerPoint finer)"

definition rules_hold :: "ArchiveInfo list \<Rightarrow> bool" where
  "rules_hold sorted_archives = (sorted_archives \<noteq> [] \<and> successively pair_ok sorted_archives)"

text \<open>
  The codec's \<open>write_records(offset, records)\<close>: a seek to the offset and the records
  written there in big-endian.
\<close>

definition write_records :: "os_file \<Rightarrow> nat \<Rightarrow> Point list \<Rightarrow> os_file" where
  "write_records f off ps = Write (Seek f off) (put_Points ps)"

text \<open>
  The number of whole records between an offset and the end of the archive, as
  \<open>writePoints\<close> computes it in \<open>uint32\<close>.
\<close>

definition capacity_to_end :: "ArchiveInfo \<Rightarrow> u32 \<Rightarrow> nat" where
  "capacity_to_end archive offset = unat ((end_a archive - offset) div pointSize)"


text \<open>
  The rule of the list that an error message of \<open>ValidateArchiveList\<close> stands for, as a
  statement about an adjacent pair.
\<close>

definition rule_broken :: "go_error \<Rightarrow> ArchiveInfo \<Rightarrow> ArchiveInfo \<Rightarrow> bool" where
  "rule_broken e finer coarser =
     (if e = ErrorString ''No archive may be a duplicate of another''
        then \<not> SecondsPerPoint finer < SecondsPerPoint coarser
      else if e = ErrorString ''Higher precision archives must evenly divide in to lower precision''
        then SecondsPerPoint coarser mod SecondsPerPoint finer \<noteq> 0
      else if e = ErrorString
          ''Lower precision archives must cover a larger time interval than higher precision''
        then \<not> Retention coarser > Retention finer
      else if e = ErrorString ''Each archive must be able to consolidate the next''
        then \<not> Points finer \<ge> SecondsPerPoint coarser div SecondsPerPoint finer
      else False)"

section \<open>Example databases\<close>

text \<open>
  A database of two archives, one point per second for two seconds and one point per
  two seconds for four seconds, with aggregation method SUM and x-files-factor 0.0: a
  header of 40 bytes and two archives of 24 bytes at offsets 40 and 64.
\<close>

definition db_finer :: ArchiveInfo where
  "db_finer = \<lparr>Offset = 40, SecondsPerPoint = 1, Points = 2\<rparr>"

definition db_coarser :: ArchiveInfo where
  "db_coarser = \<lparr>Offset = 64, SecondsPerPoint = 2, Points = 2\<rparr>"

definition db_header :: Header where
  "db_header = \<lparr>Metadata = \<lparr>AggregationMethod = 2, MaxRetention = 4, XFilesFactor = 0,
                              ArchiveCount = 2\<rparr>,
                 Archives = [db_finer, db_coarser]\<rparr>"

definition db_header_bytes :: "byte list" where
  "db_header_bytes =
     put_Metadata (Metadata db_header) @ put_ArchiveInfo db_finer @ put_ArchiveInfo db_coarser"

text \<open>The database with both archives still zeroed.\<close>

definition db_fresh :: Whisper where
  "db_fresh = \<lparr>Header = db_header,
               wfile = \<lparr>content = db_header_bytes @ replicate 48 0, pos = 0\<rparr>,
     writes = []\<rparr>"

text \<open>
  The finer archive holds one point, for second 11, in its second slot; its first slot
  is unused.
\<close>

definition db_one_known :: Whisper where
  "db_one_known = \<lparr>Header = db_header,
     wfile = \<lparr>content = db_header_bytes @ replicate 12 0
                         @ put_Point \<lparr>Timestamp = 11, Value = 0x4000000000000000\<rparr>
                         @ replicate 24 0, pos = 0\<rparr>,
     writes = []\<rparr>"

text \<open>The file ends 8 bytes into the finer archive (48 bytes instead of 88).\<close>

definition db_truncated :: Whisper where
  "db_truncated = \<lparr>Header = db_header,
     wfile = \<lparr>content = db_header_bytes @ replicate 8 0, pos = 0\<rparr>,
     writes = []\<rparr>"


section \<open>Supporting lemmas\<close>

lemma Write_at_end:
  "pos f = length (content f) \<Longrightarrow>
     content (Write f bs) = content f @ bs \<and> pos (Write f bs) = length (content f) + length bs"
  by (simp add: Write_def)

lemma Create_descriptors_at_end:
  "pos f = length (content f) \<Longrightarrow> Create_descriptors f p archives = (f', p') \<Longrightarrow>
     pos f' = length (content f') \<and>
     length (content f') = length (content f) + 12 * length archives \<and>
     p' = p + archives_bytes archives"
proof (induction f p archives rule: Create_descriptors.induct)
  case (1 f p)
  then show ?case by (auto simp: archives_bytes_def)
next
  case (2 f p archive rest)
  let ?f1 = "Write f (put_ArchiveInfo (archive\<lparr>Offset := p\<rparr>))"
  have w: "content ?f1 = content f @ put_ArchiveInfo (archive\<lparr>Offset := p\<rparr>)"
          "pos ?f1 = length (content f) + 12"
    using Write_at_end[OF "2.prems"(1)] by (simp_all add: put_ArchiveInfo_def be32_def)
  have l: "length (content ?f1) = length (content f) + 12"
    using w by (simp add: put_ArchiveInfo_def be32_def)
  have "pos ?f1 = length (content ?f1)" using w l by simp
  from "2.IH"[OF this] "2.prems"(2) l show ?case
    by (simp add: archives_bytes_def add.assoc)
qed

lemma Create_fill_length:
  "pos f = length (content f) \<Longrightarrow> length (content (Create_fill f r)) = length (content f) + unat r"
proof (induction f r rule: Create_fill.induct)
  case (1 f remaining)
  show ?case
  proof (cases "remaining > 16384")
    case True
    let ?f1 = "Write f (replicate 16384 0)"
    have w: "pos ?f1 = length (content ?f1)" "length (content ?f1) = length (content f) + 16384"
      using Write_at_end[OF "1.prems"] by simp_all
    have u: "unat (remaining - 16384) + 16384 = unat remaining"
      using True by (simp add: unat_sub word_less_nat_alt word_le_nat_alt)
    show ?thesis
      using "1.IH"[OF True w(1)] True w(2) u
      by (subst Create_fill.simps) simp
  next
    case False
    then show ?thesis using Write_at_end[OF "1.prems"]
      by (subst Create_fill.simps) simp
  qed
qed

lemma Create_header_written:
  "Create_descriptors (Write \<lparr>content = [], pos = 0\<rparr> (put_Metadata md)) p archives = (f', p') \<Longrightarrow>
     pos f' = length (content f') \<and> length (content f') = 16 + 12 * length archives \<and>
     p' = p + archives_bytes archives"
proof -
  assume a: "Create_descriptors (Write \<lparr>content = [], pos = 0\<rparr> (put_Metadata md)) p archives = (f', p')"
  let ?f1 = "Write \<lparr>content = [], pos = 0\<rparr> (put_Metadata md)"
  have "pos ?f1 = length (content ?f1)" "length (content ?f1) = 16"
    by (simp_all add: Write_def put_Metadata_def be32_def)
  with Create_descriptors_at_end[OF this(1) a] show ?thesis by simp
qed

lemma Create_dense_length:
  "length (content (snd (Create archiveSize archives xff m False)))
     = 16 + 12 * length archives + unat (archives_bytes archives)"
proof -
  let ?md = "\<lparr>AggregationMethod = m, MaxRetention = Create_oldest 0 archives,
              XFilesFactor = xff, ArchiveCount = of_nat (length archives)\<rparr>"
  let ?hs = "metadataSize + archiveSize * of_nat (length archives)"
  let ?d = "Create_descriptors (Write \<lparr>content = [], pos = 0\<rparr> (put_Metadata ?md)) ?hs archives"
  obtain f' p' where d: "?d = (f', p')" by (cases ?d) blast
  have h: "pos f' = length (content f')" "length (content f') = 16 + 12 * length archives"
          "p' - ?hs = archives_bytes archives"
    using Create_header_written[OF d] by simp_all
  have "snd (Create archiveSize archives xff m False) = Create_fill f' (p' - ?hs)"
    unfolding Create_def Let_def d by simp
  then show ?thesis
    using Create_fill_length[OF h(1)] h(2,3) by simp
qed

lemma Create_sparse_length:
  "length (content (snd (Create archiveSize archives xff m True)))
     = max (16 + 12 * length archives) (unat (archives_bytes archives - 1) + 1)"
proof -
  let ?md = "\<lparr>AggregationMethod = m, MaxRetention = Create_oldest 0 archives,
              XFilesFactor = xff, ArchiveCount = of_nat (length archives)\<rparr>"
  let ?hs = "metadataSize + archiveSize * of_nat (length archives)"
  let ?d = "Create_descriptors (Write \<lparr>content = [], pos = 0\<rparr> (put_Metadata ?md)) ?hs archives"
  obtain f' p' where d: "?d = (f', p')" by (cases ?d) blast
  have h: "pos f' = length (content f')" "length (content f') = 16 + 12 * length archives"
          "p' - ?hs - 1 = archives_bytes archives - 1"
    using Create_header_written[OF d] by simp_all
  have "snd (Create archiveSize archives xff m True)
           = Write (Seek f' (unat (p' - ?hs - 1))) [0]"
    unfolding Create_def Let_def d by simp
  then have s: "snd (Create archiveSize archives xff m True)
           = Write (Seek f' (unat (archives_bytes archives - 1))) [0]"
    by (simp only: h(3))
  show ?thesis
    unfolding s using h(2) by (auto simp: Write_def Seek_def max_def min_def)
qed

lemma validate_loop_accepts_iff:
  "\<forall>a\<in>set xs. SecondsPerPoint a \<noteq> 0 \<Longrightarrow> validate_loop xs = Inr None \<longleftrightarrow> successively pair_ok xs"
  by (induction xs rule: validate_loop.induct) (auto simp: pair_ok_def)

lemma validate_loop_no_panic:
  "\<forall>a\<in>set xs. SecondsPerPoint a \<noteq> 0 \<Longrightarrow> \<exists>e. validate_loop xs = Inr e"
  by (induction xs rule: validate_loop.induct) auto

lemma ValidateArchiveList_accepts_iff:
  assumes "\<forall>a\<in>set archives. SecondsPerPoint a \<noteq> 0"
  shows "ValidateArchiveList archives = Inr (None, sort_key SecondsPerPoint archives)
         \<longleftrightarrow> rules_hold (sort_key SecondsPerPoint archives)"
proof -
  have nz: "\<forall>a\<in>set (sort_key SecondsPerPoint archives). SecondsPerPoint a \<noteq> 0"
    using assms by simp
  obtain e where e: "validate_loop (sort_key SecondsPerPoint archives) = Inr e"
    using validate_loop_no_panic[OF nz] by blast
  show ?thesis
    using validate_loop_accepts_iff[OF nz] e
    by (auto simp: ValidateArchiveList_def rules_hold_def Let_def)
qed

lemma validate_loop_error_rule:
  "validate_loop xs = Inr (Some e) \<Longrightarrow>
     \<exists>i. Suc i < length xs \<and> rule_broken e (xs ! i) (xs ! Suc i)"
proof (induction xs rule: validate_loop.induct)
  case 1
  then show ?case by simp
next
  case (2 archive)
  then show ?case by simp
next
  case (3 archive nextArchive rest)
  show ?case
  proof (cases "pair_ok archive nextArchive \<and> SecondsPerPoint archive \<noteq> 0")
    case True
    then have "validate_loop (nextArchive # rest) = Inr (Some e)"
      using "3.prems" by (simp add: pair_ok_def)
    then have "\<exists>i. Suc i < length (nextArchive # rest) \<and>
        rule_broken e ((nextArchive # rest) ! i) ((nextArchive # rest) ! Suc i)"
      using "3.IH" True by (simp add: pair_ok_def)
    then obtain i where "Suc i < length (nextArchive # rest)"
        "rule_broken e ((nextArchive # rest) ! i) ((nextArchive # rest) ! Suc i)"
      by blast
    then have "Suc (Suc i) < length (archive # nextArchive # rest) \<and>
       rule_broken e ((archive # nextArchive # rest) ! Suc i) ((archive # nextArchive # rest) ! Suc (Suc i))"
      by simp
    then show ?thesis by blast
  next
    case False
    with "3.prems" have "rule_broken e archive nextArchive"
      by (auto simp: rule_broken_def pair_ok_def split: if_splits)
    then have "Suc 0 < length (archive # nextArchive # rest) \<and>
       rule_broken e ((archive # nextArchive # rest) ! 0) ((archive # nextArchive # rest) ! Suc 0)"
      by simp
    then show ?thesis by blast
  qed
qed

lemma length_put_Points: "length (put_Points ps) = 12 * length ps"
  by (induction ps) (simp_all add: put_Points_def put_Point_def be32_def be64_def)



lemma write_records_before:
  "i < off \<Longrightarrow> i < length (content f) \<Longrightarrow> content (write_records f off ps) ! i = content f ! i"
proof (cases "ps = []")
  case True
  then show ?thesis by (simp add: write_records_def put_Points_def Write_def Seek_def)
next
  case False
  assume a: "i < off" "i < length (content f)"
  from False have ne: "put_Points ps \<noteq> []"
    using length_put_Points[of ps] by (metis length_0_conv mult_is_0 zero_neq_numeral)
  show ?thesis using ne a
    by (simp add: write_records_def Write_def Seek_def nth_append)
qed

lemma write_records_after:
  "off + 12 * length ps \<le> i \<Longrightarrow> i < length (content f) \<Longrightarrow>
     content (write_records f off ps) ! i = content f ! i"
proof (cases "ps = []")
  case True
  then show ?thesis by (simp add: write_records_def put_Points_def Write_def Seek_def)
next
  case False
  assume a: "off + 12 * length ps \<le> i" "i < length (content f)"
  from False have ne: "put_Points ps \<noteq> []"
    using length_put_Points[of ps] by (metis length_0_conv mult_is_0 zero_neq_numeral)
  have b: "\<not> i < off" "\<not> i - off < 12 * length ps" "off + 12 * length ps + (i - off - 12 * length ps) = i"
    using a by simp_all
  show ?thesis using ne a b
    by (simp add: write_records_def Write_def Seek_def nth_append length_put_Points min_def)
qed

lemma propagate_true_no_error:
  "propagate fo w t h l = Inr (True, e, w') \<Longrightarrow> e = None"
  by (auto simp: propagate_def Let_def split: sum.splits prod.splits if_splits)

lemma Update_propagate_keeps_err:
  "Update_propagate fo w t h ls err = Inr (e, w') \<Longrightarrow> e = err"
proof (induction ls arbitrary: w h)
  case Nil
  then show ?case by simp
next
  case (Cons l ls)
  then show ?case
    by (auto split: sum.splits prod.splits if_splits dest: propagate_true_no_error)
qed

lemma pointOffset_no_index_panic: "pointOffset w a t \<noteq> Inl IndexOutOfRange"
  by (auto simp: pointOffset_def Let_def split: prod.splits if_splits)

lemma readPointsBetweenOffsets_no_index_panic:
  "readPointsBetweenOffsets w a s e \<noteq> Inl IndexOutOfRange"
  by (auto simp: readPointsBetweenOffsets_def Let_def split: prod.splits if_splits)

lemma propagate_neighbors_no_index_panic:
  "propagate_neighbors w t h l \<noteq> Inl IndexOutOfRange"
  using pointOffset_no_index_panic readPointsBetweenOffsets_no_index_panic
  by (auto simp: propagate_neighbors_def Let_def split: sum.splits prod.splits if_splits)

lemma writePoint_no_index_panic: "writePoint w a p \<noteq> Inl IndexOutOfRange"
  using pointOffset_no_index_panic
  by (auto simp: writePoint_def writePoints_def Let_def split: sum.splits prod.splits if_splits)

lemma aggregate_nonempty: "points \<noteq> [] \<Longrightarrow> \<exists>r. aggregate fo m points = Inr r"
  by (simp add: aggregate_def)











lemma Update_accepted_panics:
  "now - Timestamp point < MaxRetention (Metadata (Header w)) \<Longrightarrow>
     Update fo w now point = Inl DivideByZero"
  by (simp add: Update_def zero_ArchiveInfo_def Let_def)

lemma Update_rejected_silent:
  "\<not> now - Timestamp point < MaxRetention (Metadata (Header w)) \<Longrightarrow>
     Update fo w now point = Inr (None, w)"
  by (simp add: Update_def)

text \<open>
  Every call of \<open>Update\<close> ends at the retention check or at the remainder by the zero
  resolution, before the point is written and before the propagation loop.
\<close>

lemma Update_nil_or_panic:
  "Update fo w now point = Inl DivideByZero \<or> Update fo w now point = Inr (None, w)"
  using Update_accepted_panics[of now point w fo] Update_rejected_silent[of now point w fo]
  by blast

lemma insert_desc_mset: "mset (insert_desc p ps) = add_mset p (mset ps)"
  by (induction ps) auto

lemma sort_desc_mset: "mset (sort_desc ps) = mset ps"
proof -
  have "mset (foldl (\<lambda>acc p. insert_desc p acc) acc ps) = mset acc + mset ps" for acc
    by (induction ps arbitrary: acc) (auto simp: insert_desc_mset)
  then show ?thesis by (simp add: sort_desc_def)
qed

subsection \<open>The codec reads back what it wrote\<close>

lemma byte_step:
  fixes x :: "'a::len word"
  shows "push_bit 8 (drop_bit (n + 8) x) OR ucast (ucast (drop_bit n x) :: 8 word) = drop_bit n x"
proof (rule bit_word_eqI)
  fix k assume kl: "k < LENGTH('a)"
  show "bit (push_bit 8 (drop_bit (n + 8) x) OR ucast (ucast (drop_bit n x) :: 8 word)) k
        = bit (drop_bit n x) k"
  proof (cases "k < 8")
    case True
    then show ?thesis using kl by (auto simp add: bit_simps)
  next
    case False
    then have "n + 8 + (k - 8) = n + k" by simp
    then show ?thesis using False kl by (auto simp add: bit_simps)
  qed
qed

lemma de32_be32: "de32 (be32 x) = x"
proof -
  have a: "drop_bit 32 x = 0" by (simp add: drop_bit_eq_zero_iff_not_bit_last) 
  have s4: "ucast (ucast (drop_bit 24 x) :: 8 word) = drop_bit 24 x"
    using byte_step[of 24 x] by (simp add: a)
  have s3: "push_bit 8 (drop_bit 24 x) OR ucast (ucast (drop_bit 16 x) :: 8 word) = drop_bit 16 x"
    using byte_step[of 16 x] by simp
  have s2: "push_bit 8 (drop_bit 16 x) OR ucast (ucast (drop_bit 8 x) :: 8 word) = drop_bit 8 x"
    using byte_step[of 8 x] by simp
  have s1: "push_bit 8 (drop_bit 8 x) OR ucast (ucast x :: 8 word) = x"
    using byte_step[of 0 x] by simp
  show ?thesis
    by (simp add: de32_def be32_def s4 s3 s2 s1)
qed

lemma de64_be64: "de64 (be64 x) = x"
proof -
  have a: "drop_bit 64 x = 0" by (simp add: drop_bit_eq_zero_iff_not_bit_last)
  have s8: "ucast (ucast (drop_bit 56 x) :: 8 word) = drop_bit 56 x"
    using byte_step[of 56 x] by (simp add: a)
  have s7: "push_bit 8 (drop_bit 56 x) OR ucast (ucast (drop_bit 48 x) :: 8 word) = drop_bit 48 x"
    using byte_step[of 48 x] by simp
  have s6: "push_bit 8 (drop_bit 48 x) OR ucast (ucast (drop_bit 40 x) :: 8 word) = drop_bit 40 x"
    using byte_step[of 40 x] by simp
  have s5: "push_bit 8 (drop_bit 40 x) OR ucast (ucast (drop_bit 32 x) :: 8 word) = drop_bit 32 x"
    using byte_step[of 32 x] by simp
  have s4: "push_bit 8 (drop_bit 32 x) OR ucast (ucast (drop_bit 24 x) :: 8 word) = drop_bit 24 x"
    using byte_step[of 24 x] by simp
  have s3: "push_bit 8 (drop_bit 24 x) OR ucast (ucast (drop_bit 16 x) :: 8 word) = drop_bit 16 x"
    using byte_step[of 16 x] by simp
  have s2: "push_bit 8 (drop_bit 16 x) OR ucast (ucast (drop_bit 8 x) :: 8 word) = drop_bit 8 x"
    using byte_step[of 8 x] by simp
  have s1: "push_bit 8 (drop_bit 8 x) OR ucast (ucast x :: 8 word) = x"
    using byte_step[of 0 x] by simp
  show ?thesis
    by (simp add: de64_def be64_def s8 s7 s6 s5 s4 s3 s2 s1)
qed

lemma length_be32: "length (be32 x) = 4"
  by (simp add: be32_def)

lemma length_be64: "length (be64 x) = 8"
  by (simp add: be64_def)

lemma length_put_Point: "length (put_Point p) = 12"
  by (simp add: put_Point_def length_be32 length_be64)

lemma get_put_Point: "get_Point (put_Point p) = p"
  by (simp add: get_Point_def put_Point_def length_be32 length_be64 de32_be32 de64_be64)

lemma get_put_Point_append: "get_Point (take 12 (put_Point p @ bs)) = p"
  by (simp add: length_put_Point get_put_Point)


subsection \<open>Records in the file\<close>




text \<open>
  An offset inside the archive that is a whole number of records after the archive's
  offset leaves room for the wrapped records before it.
\<close>

lemma aligned_offset_disjoint:
  assumes fit: "unat (Offset a) + 12 * unat (Points a) < 2 ^ 32"
      and lo: "Offset a \<le> offset"
      and hi: "offset < end_a a"
      and al: "12 dvd (unat offset - unat (Offset a))"
      and n: "n \<le> unat (Points a)"
  shows "unat (Offset a) + 12 * (n - capacity_to_end a offset) \<le> unat offset"
proof -
  let ?B = "unat (Offset a)" and ?P = "unat (Points a)" and ?p = "unat offset"
  have sz: "unat (size_a a) = 12 * ?P"
    using fit by (simp add: size_a_def pointSize_def unat_word_ariths)
  have en: "unat (end_a a) = ?B + 12 * ?P"
    using fit sz by (simp add: end_a_def unat_word_ariths)
  have b1: "?B \<le> ?p" using lo by (simp add: word_le_nat_alt)
  have b2: "?p < ?B + 12 * ?P" using hi en by (simp add: word_less_nat_alt)
  have "unat (end_a a - offset) = ?B + 12 * ?P - ?p"
    using hi en by (simp add: unat_sub word_less_nat_alt word_le_nat_alt)
  then have cap: "capacity_to_end a offset = (?B + 12 * ?P - ?p) div 12"
    by (simp add: capacity_to_end_def pointSize_def unat_div)
  obtain k where k: "?p - ?B = 12 * k" using al by (auto simp: dvd_def)
  then have p: "?p = ?B + 12 * k" using b1 by simp
  have kP: "k < ?P" using b2 p by simp
  have "capacity_to_end a offset = ?P - k"
  proof -
    have "?B + 12 * ?P - ?p = 12 * (?P - k)" using p kP by simp
    then show ?thesis using cap by simp
  qed
  then have "n - capacity_to_end a offset \<le> k" using n kP by simp
  then show ?thesis using p by simp
qed

section \<open>Evaluations on the example databases\<close>

lemma db_fresh_pointOffset:
  "pointOffset db_fresh db_finer 11 =
     Inr (52, None, db_fresh\<lparr>wfile := \<lparr>content = content (wfile db_fresh), pos = 12\<rparr>\<rparr>)"
  by code_simp

lemma db_fresh_base_slot: "fst (readPoint db_fresh (Offset db_finer)) = zero_Point"
  by code_simp

lemma db_one_known_neighbors:
  "propagate_neighbors db_one_known 11 db_finer db_coarser =
     Inr ((10, [zero_Point, \<lparr>Timestamp = 11, Value = 0x4000000000000000\<rparr>], []), None,
          db_one_known\<lparr>wfile := \<lparr>content = content (wfile db_one_known), pos = 40\<rparr>\<rparr>)"
  by code_simp

lemma db_truncated_neighbors:
  "propagate_neighbors db_truncated 11 db_finer db_coarser =
     Inr ((10, [zero_Point, zero_Point], []), Some ErrUnexpectedEOF,
          db_truncated\<lparr>wfile := \<lparr>content = content (wfile db_truncated), pos = 48\<rparr>\<rparr>)"
  by code_simp

lemma db_truncated_propagate:
  "propagate fo db_truncated 11 db_finer db_coarser =
     Inr (False, Some ErrUnexpectedEOF,
          db_truncated\<lparr>wfile := \<lparr>content = content (wfile db_truncated), pos = 48\<rparr>\<rparr>)"
  by (simp add: propagate_def db_truncated_neighbors)

text \<open>
  On the truncated example database \<open>propagate\<close> fails to read the finer archive and
  returns \<open>false\<close> with the read error; the propagation loop of \<open>Update\<close>, started
  there, tests \<open>!result\<close> first and returns the error it was started with.
\<close>

lemma db_truncated_Update_propagate:
  "propagate fo db_truncated 11 db_finer db_coarser =
     Inr (False, Some ErrUnexpectedEOF,
          db_truncated\<lparr>wfile := \<lparr>content = content (wfile db_truncated), pos = 48\<rparr>\<rparr>)
   \<and> Update_propagate fo db_truncated 11 db_finer [db_coarser] None =
     Inr (None,
          db_truncated\<lparr>wfile := \<lparr>content = content (wfile db_truncated), pos = 48\<rparr>\<rparr>)"
  by (simp add: db_truncated_propagate)

section \<open>The claims\<close>

text \<open>
  C1. The single-point update is to write an accepted point to the finest archive whose
  retention covers its age, quantized to that archive, and to propagate along exactly the
  coarser archives. On the example database at time 12 a point of second 11 has age 1;
  the finest covering archive is the first one. \<open>Update\<close> does not write it: the
  archive it quantizes with is the zero value, so the remainder by its
  \<open>SecondsPerPoint\<close> panics. The selection loop, which has no \<open>break\<close>, leaves an empty
  propagation chain although the coarser archive follows the covering one.
\<close>

theorem Update_accepted_point_divides_by_zero:
  "(\<forall>fo v. Update fo db_fresh 12 \<lparr>Timestamp = 11, Value = v\<rparr> = Inl DivideByZero)
   \<and> finest_covering 12 (Archives db_header) \<lparr>Timestamp = 11, Value = 0\<rparr> = Some 0
   \<and> Update_select 1 [] (Archives db_header) = []"
proof (intro conjI allI)
  fix fo v
  show "Update fo db_fresh 12 \<lparr>Timestamp = 11, Value = v\<rparr> = Inl DivideByZero"
    by (simp add: Update_accepted_panics db_fresh_def db_header_def)
next
  show "finest_covering 12 (Archives db_header) \<lparr>Timestamp = 11, Value = 0\<rparr> = Some 0"
    by code_simp
next
  show "Update_select 1 [] (Archives db_header) = []"
    by code_simp
qed

text \<open>
  C2. Propagation is to examine every slot of the lower interval, slot \<open>i\<close> being known
  when its timestamp is the interval start plus \<open>i\<close> steps, and to write an aggregate
  when some slot is known and the known share reaches the x-files-factor. The loop of
  \<open>propagate\<close> steps its index by 2 and its expected timestamp by one step: of four
  filled slots it finds the first only. On the example database, whose x-files-factor
  is 0.0, the interval starting at second 10 has its second slot known, so one of two
  slots is known; \<open>propagate\<close> never looks at that slot, finds no neighbour, writes
  nothing and returns false.
\<close>

theorem propagate_skips_every_second_slot:
  "known_slots 100 10 (map (\<lambda>t. \<lparr>Timestamp = t, Value = 0\<rparr>) [100, 110, 120, 130])
     = map (\<lambda>t. \<lparr>Timestamp = t, Value = 0\<rparr>) [100, 110, 120, 130]
   \<and> neighbors 100 10 (map (\<lambda>t. \<lparr>Timestamp = t, Value = 0\<rparr>) [100, 110, 120, 130])
     = [\<lparr>Timestamp = 100, Value = 0\<rparr>]
   \<and> known_slots 10 1 [zero_Point, \<lparr>Timestamp = 11, Value = 0x4000000000000000\<rparr>]
     = [\<lparr>Timestamp = 11, Value = 0x4000000000000000\<rparr>]
   \<and> (\<forall>fo. propagate fo db_one_known 11 db_finer db_coarser =
        Inr (False, None,
             db_one_known\<lparr>wfile := \<lparr>content = content (wfile db_one_known), pos = 40\<rparr>\<rparr>))"
proof (intro conjI allI)
  show "known_slots 100 10 (map (\<lambda>t. \<lparr>Timestamp = t, Value = 0\<rparr>) [100, 110, 120, 130])
     = map (\<lambda>t. \<lparr>Timestamp = t, Value = 0\<rparr>) [100, 110, 120, 130]"
    by code_simp
next
  show "neighbors 100 10 (map (\<lambda>t. \<lparr>Timestamp = t, Value = 0\<rparr>) [100, 110, 120, 130])
     = [\<lparr>Timestamp = 100, Value = 0\<rparr>]"
    by code_simp
next
  show "known_slots 10 1 [zero_Point, \<lparr>Timestamp = 11, Value = 0x4000000000000000\<rparr>]
     = [\<lparr>Timestamp = 11, Value = 0x4000000000000000\<rparr>]"
    by code_simp
next
  fix fo
  show "propagate fo db_one_known 11 db_finer db_coarser =
        Inr (False, None,
             db_one_known\<lparr>wfile := \<lparr>content = content (wfile db_one_known), pos = 40\<rparr>\<rparr>)"
    by (simp add: propagate_def db_one_known_neighbors)
qed

text \<open>
  C3. The offset of a timestamp is to be computed from the base point stored at the
  archive's own offset, and to be the archive's offset while that base point is unused.
  \<open>pointOffset\<close> reads the base point at byte 0 of the file, which holds the metadata:
  in the fresh example database the slot at the finer archive's offset is unused, yet
  the offset returned for second 11 is 52 and not the archive's offset 40, because the
  aggregation method 2 is taken for the base timestamp.
\<close>

theorem pointOffset_reads_base_at_byte_zero:
  "fst (readPoint db_fresh (Offset db_finer)) = zero_Point
   \<and> Offset db_finer = 40
   \<and> pointOffset db_fresh db_finer 11 =
       Inr (52, None, db_fresh\<lparr>wfile := \<lparr>content = content (wfile db_fresh), pos = 12\<rparr>\<rparr>)"
  by (simp add: db_fresh_pointOffset db_fresh_base_slot) (simp add: db_finer_def)

text \<open>
  C4. A point whose age is not below the maximum retention is to fail with a stale-point
  error, nothing being written. In the example database the maximum retention is 4: at
  time 12 a point of second 8 is rejected and the file is untouched, but \<open>Update\<close>
  returns no error; a point of age 0 passes the check and then panics.
\<close>

theorem Update_stale_point_returns_nil:
  "(\<forall>fo v. Update fo db_fresh 12 \<lparr>Timestamp = 8, Value = v\<rparr> = Inr (None, db_fresh))
   \<and> (\<forall>fo v. Update fo db_fresh 12 \<lparr>Timestamp = 12, Value = v\<rparr> = Inl DivideByZero)"
  by (simp add: Update_accepted_panics Update_rejected_silent db_fresh_def db_header_def)

text \<open>
  C5. A created file is to have 16 bytes of metadata, 12 bytes per archive descriptor
  and 12 bytes per point. For the two example archives that is 88 bytes, and the dense
  allocation gives them; the sparse allocation seeks to the last byte of the archives
  counted from the start of the file, not from the end of the header, and the file has
  48 bytes.
\<close>

theorem Create_sparse_file_too_short:
  "(\<forall>archiveSize xff m.
      length (content (snd (Create archiveSize [db_finer, db_coarser] xff m True))) = 48)
   \<and> (\<forall>archiveSize xff m.
      length (content (snd (Create archiveSize [db_finer, db_coarser] xff m False))) = 88)
   \<and> 16 + 12 * length [db_finer, db_coarser]
       + unat (Points db_finer * 12) + unat (Points db_coarser * 12) = 88"
  by (simp add: Create_sparse_length Create_dense_length archives_bytes_def
        db_finer_def db_coarser_def pointSize_def)







text \<open>
  C8. Validation is to reject a list that breaks one of the five rules with the error of
  that rule. A list whose finest archive has resolution 0 breaks rule 3, since 0 does
  not evenly divide the next resolution; \<open>ValidateArchiveList\<close> takes the remainder by
  that resolution and panics instead of returning the error. (For lists without a zero
  resolution it accepts exactly the sorted lists that satisfy the five rules,
  \<open>ValidateArchiveList_accepts_iff\<close>, and every error it returns names a rule that an
  adjacent pair breaks, \<open>validate_loop_error_rule\<close>.)
\<close>

theorem ValidateArchiveList_zero_resolution_panics:
  "ValidateArchiveList [\<lparr>Offset = 0, SecondsPerPoint = 0, Points = 1\<rparr>,
                        \<lparr>Offset = 0, SecondsPerPoint = 1, Points = 2\<rparr>] = Inl DivideByZero"
  by (simp add: ValidateArchiveList_def)

text \<open>
  C10. \<open>aggregate\<close> is only called by \<open>propagate\<close>, and never on an empty list: when
  no neighbour point was collected \<open>propagate\<close> returns \<open>false\<close> (with the error of the
  read, if there was one, and \<open>nil\<close> otherwise) without aggregating, and the index
  panic that \<open>aggregate\<close> raises on an empty list for LAST, MAX and MIN is never the
  outcome of \<open>propagate\<close>. (\<open>aggregate_nonempty\<close>: on a non-empty list \<open>aggregate\<close> does
  not panic.)
\<close>

theorem propagate_aggregates_nonempty_only:
  "(propagate_neighbors w t h l = Inr ((s, ps, []), err, w') \<longrightarrow>
      propagate fo w t h l = Inr (False, err, w'))
   \<and> propagate fo w t h l \<noteq> Inl IndexOutOfRange"
proof
  show "propagate_neighbors w t h l = Inr ((s, ps, []), err, w') \<longrightarrow>
      propagate fo w t h l = Inr (False, err, w')"
    by (simp add: propagate_def)
next
  show "propagate fo w t h l \<noteq> Inl IndexOutOfRange"
  proof
    assume a: "propagate fo w t h l = Inl IndexOutOfRange"
    show False
    proof (cases "propagate_neighbors w t h l")
      case (Inl p)
      with a have "p = IndexOutOfRange" by (simp add: propagate_def)
      with Inl propagate_neighbors_no_index_panic show False by blast
    next
      case (Inr r)
      obtain s ps nb err w2 where r: "r = ((s, ps, nb), err, w2)"
        by (cases r) auto
      show False
      proof (cases "nb = []")
        case True
        with a Inr r show False by (simp add: propagate_def Let_def split: if_splits)
      next
        case False
        then obtain ap e3 where ag: "aggregate fo (AggregationMethod (Metadata (Header w))) nb = Inr (ap, e3)"
          using aggregate_nonempty by fastforce
        from a Inr r ag False writePoint_no_index_panic show False
          by (auto simp: propagate_def Let_def split: if_splits sum.splits prod.splits)
      qed
    qed
  qed
qed

theorem propagate_aggregates_nonempty_only_witness:
  "\<forall>fo. propagate_neighbors db_one_known 11 db_finer db_coarser =
          Inr ((10, [zero_Point, \<lparr>Timestamp = 11, Value = 0x4000000000000000\<rparr>], []), None,
               db_one_known\<lparr>wfile := \<lparr>content = content (wfile db_one_known), pos = 40\<rparr>\<rparr>)
        \<and> propagate fo db_one_known 11 db_finer db_coarser =
          Inr (False, None,
               db_one_known\<lparr>wfile := \<lparr>content = content (wfile db_one_known), pos = 40\<rparr>\<rparr>)
        \<and> propagate fo db_one_known 11 db_finer db_coarser \<noteq> Inl IndexOutOfRange"
proof
  fix fo
  show "propagate_neighbors db_one_known 11 db_finer db_coarser =
          Inr ((10, [zero_Point, \<lparr>Timestamp = 11, Value = 0x4000000000000000\<rparr>], []), None,
               db_one_known\<lparr>wfile := \<lparr>content = content (wfile db_one_known), pos = 40\<rparr>\<rparr>)
        \<and> propagate fo db_one_known 11 db_finer db_coarser =
          Inr (False, None,
               db_one_known\<lparr>wfile := \<lparr>content = content (wfile db_one_known), pos = 40\<rparr>\<rparr>)
        \<and> propagate fo db_one_known 11 db_finer db_coarser \<noteq> Inl IndexOutOfRange"
    using propagate_aggregates_nonempty_only[of db_one_known 11 db_finer db_coarser 10
            "[zero_Point, \<lparr>Timestamp = 11, Value = 0x4000000000000000\<rparr>]" None
            "db_one_known\<lparr>wfile := \<lparr>content = content (wfile db_one_known), pos = 40\<rparr>\<rparr>" fo]
          db_one_known_neighbors
    by simp
qed

end
